theory Spec2Isabelle
  imports Complex_Main "HOL-Library.Log_Nat"
begin

section \<open>Python floats\<close>

text \<open>
  A Python \<^verbatim>\<open>float\<close> is an IEEE-754 binary64 number. A finite one is represented by
  the rational number it denotes; the two infinities and NaN are values of their own.
  The two zeros \<^verbatim>\<open>0.0\<close> and \<^verbatim>\<open>-0.0\<close> are one value here: they are equal under
  Python's \<^verbatim>\<open>==\<close>, and division, multiplication and \<^verbatim>\<open>round\<close> (the only
  operations \<^verbatim>\<open>convert\<close> performs) send equal arguments to equal results.
  Equality of \<open>pyfloat\<close> is identity of values, so NaN is equal to itself.
\<close>

datatype pyfloat = Fin rat | PInf | NInf | NaN

definition pow2 :: "int \<Rightarrow> rat" where
  "pow2 e = (if 0 \<le> e then 2 ^ nat e else 1 / 2 ^ nat (- e))"

text \<open>Rounding a rational to the nearest integer, a tie going to the even neighbour.\<close>

definition round_half_even :: "rat \<Rightarrow> int" where
  "round_half_even x =
     (let f = \<lfloor>x\<rfloor>; d = x - of_int f
      in if d < 1 / 2 then f else if 1 / 2 < d then f + 1 else if even f then f else f + 1)"

text \<open>\<open>flog2 x\<close> is the binary exponent of \<open>x \<noteq> 0\<close>: \<open>2 ^ flog2 x \<le> \<bar>x\<bar> < 2 ^ (flog2 x + 1)\<close>.\<close>

definition flog2 :: "rat \<Rightarrow> int" where
  "flog2 x =
     (let (a, b) = quotient_of \<bar>x\<bar>; d = bitlen a - bitlen b
      in if pow2 d \<le> \<bar>x\<bar> then d else d - 1)"

text \<open>
  Rounding to binary64, to nearest with ties to even: 53 significant bits, the
  exponent bounded below by \<open>-1022\<close> (below that the spacing stays \<open>2 ^ -1074\<close>, the
  subnormal range), and a result of magnitude \<open>2 ^ 1024\<close> or more becomes an infinity.
\<close>

definition rnd64 :: "rat \<Rightarrow> pyfloat" where
  "rnd64 x =
     (if x = 0 then Fin 0
      else let e = max (flog2 x) (- 1022); u = pow2 (e - 52);
               y = of_int (round_half_even (x / u)) * u
           in if pow2 1024 \<le> \<bar>y\<bar> then (if 0 < x then PInf else NInf) else Fin y)"

text \<open>The values of the type that are binary64 numbers: a finite one is a fixed point of rounding.\<close>

definition is_double :: "pyfloat \<Rightarrow> bool" where
  "is_double a = (case a of Fin x \<Rightarrow> rnd64 x = Fin x | _ \<Rightarrow> True)"

text \<open>A decimal literal of the source, such as \<^verbatim>\<open>0.93\<close>, denotes the nearest double.\<close>

definition float_lit :: "rat \<Rightarrow> pyfloat" where
  "float_lit q = rnd64 q"

datatype error =
    MissingApiKey
  | UnsupportedCurrency
  | ZeroDivisionError
  | OverflowError
  | KeyError
  | CacheReadError
  | StampFormatError
  | CacheWriteError
  | FetchFailed

text \<open>IEEE-754 division and multiplication (the divisor of \<open>ieee_div\<close> is not zero).\<close>

fun ieee_div :: "pyfloat \<Rightarrow> pyfloat \<Rightarrow> pyfloat" where
  "ieee_div NaN b = NaN"
| "ieee_div a NaN = NaN"
| "ieee_div (Fin x) (Fin y) = rnd64 (x / y)"
| "ieee_div (Fin x) b = Fin 0"
| "ieee_div PInf (Fin y) = (if 0 < y then PInf else NInf)"
| "ieee_div NInf (Fin y) = (if 0 < y then NInf else PInf)"
| "ieee_div a b = NaN"

fun ieee_mul :: "pyfloat \<Rightarrow> pyfloat \<Rightarrow> pyfloat" where
  "ieee_mul NaN b = NaN"
| "ieee_mul a NaN = NaN"
| "ieee_mul (Fin x) (Fin y) = rnd64 (x * y)"
| "ieee_mul (Fin x) PInf = (if x = 0 then NaN else if 0 < x then PInf else NInf)"
| "ieee_mul (Fin x) NInf = (if x = 0 then NaN else if 0 < x then NInf else PInf)"
| "ieee_mul PInf (Fin y) = (if y = 0 then NaN else if 0 < y then PInf else NInf)"
| "ieee_mul NInf (Fin y) = (if y = 0 then NaN else if 0 < y then NInf else PInf)"
| "ieee_mul PInf PInf = PInf"
| "ieee_mul PInf NInf = NInf"
| "ieee_mul NInf PInf = NInf"
| "ieee_mul NInf NInf = PInf"

text \<open>Python's \<^verbatim>\<open>a / b\<close> on floats raises \<^verbatim>\<open>ZeroDivisionError\<close> when \<^verbatim>\<open>b == 0\<close>, whatever \<open>a\<close> is.\<close>

definition float_div :: "pyfloat \<Rightarrow> pyfloat \<Rightarrow> error + pyfloat" where
  "float_div a b = (if b = Fin 0 then Inl ZeroDivisionError else Inr (ieee_div a b))"

text \<open>
  The exact decimal rounding behind \<^verbatim>\<open>round(x, n)\<close>: the multiple of \<open>10 ^ -n\<close> nearest
  to \<open>x\<close>, a tie going to the even multiple.
\<close>

definition round_decimal :: "rat \<Rightarrow> nat \<Rightarrow> rat" where
  "round_decimal x n = of_int (round_half_even (x * 10 ^ n)) / 10 ^ n"

text \<open>
  Python's \<^verbatim>\<open>round(x, ndigits)\<close> on a float, for \<open>ndigits \<ge> 0\<close>: NaN and the infinities
  round to themselves; beyond 323 digits every float rounds to itself; otherwise the
  exact value is rounded to a decimal string, correctly and half to even, and the string
  is read back as the nearest double, \<^verbatim>\<open>OverflowError\<close> being raised when that
  overflows.
\<close>

definition py_round :: "pyfloat \<Rightarrow> nat \<Rightarrow> error + pyfloat" where
  "py_round a ndigits =
     (case a of
        Fin x \<Rightarrow>
          if 323 < ndigits then Inr a
          else (case rnd64 (round_decimal x ndigits) of
                  Fin y \<Rightarrow> Inr (Fin y)
                | _ \<Rightarrow> Inl OverflowError)
      | _ \<Rightarrow> Inr a)"

section \<open>Strings\<close>

text \<open>
  A Python string is represented by its UTF-8 encoding. \<^verbatim>\<open>str.upper()\<close> on text made
  of ASCII characters alone moves the letters \<open>a\<close> to \<open>z\<close> (codes 97 to 122) to \<open>A\<close> to
  \<open>Z\<close> and keeps every other character. On any other text its result comes from the
  Unicode character database (\<open>\<ss>\<close> becomes \<open>SS\<close>, for one), which is no part of the
  repository: there the result is that of the parameter \<open>unicode_upper\<close>, and every
  statement below holds for each such function.
\<close>

definition upper_char :: "char \<Rightarrow> char" where
  "upper_char c =
     (let n = (of_char c :: nat) in if 97 \<le> n \<and> n \<le> 122 then char_of (n - 32) else c)"

definition is_ascii :: "string \<Rightarrow> bool" where
  "is_ascii s = list_all (\<lambda>c. (of_char c :: nat) < 128) s"

definition upper :: "(string \<Rightarrow> string) \<Rightarrow> string \<Rightarrow> string" where
  "upper unicode_upper s = (if is_ascii s then map upper_char s else unicode_upper s)"

section \<open>The converter, its cache file and its provider\<close>

type_synonym rate_table = "string \<rightharpoonup> pyfloat"

text \<open>
  A timestamp text in the format \<^verbatim>\<open>%Y-%m-%d %H:%M:%S\<close> is represented by the second it
  names (seconds of the naive local calendar); \<open>NotAStamp\<close> is any value on which
  \<^verbatim>\<open>datetime.strptime\<close> raises. A \<^verbatim>\<open>datetime\<close> is a count of microseconds.
\<close>

datatype stamp = Stamp int | NotAStamp

definition strftime :: "int \<Rightarrow> stamp" where
  "strftime t = Stamp (t div 1000000)"

definition strptime :: "stamp \<Rightarrow> error + int" where
  "strptime s = (case s of Stamp n \<Rightarrow> Inr (n * 1000000) | NotAStamp \<Rightarrow> Inl StampFormatError)"

text \<open>\<^verbatim>\<open>timedelta.days\<close> of a difference of microseconds: whole days, rounded down.\<close>

definition timedelta_days :: "int \<Rightarrow> int" where
  "timedelta_days d = d div 86400000000"

text \<open>
  The cache file is represented by the JSON document it holds, as \<^verbatim>\<open>json.load\<close> returns
  it: \<open>Unparsable\<close> when opening or parsing raises, otherwise the two fields the code
  reads, each \<open>None\<close> when subscripting raises. The text that \<^verbatim>\<open>json.dump\<close> writes for a
  dict of strings and floats is taken to be read back by \<^verbatim>\<open>json.load\<close> as that dict.
\<close>

record cache_record =
  cached_last_update :: "stamp option"
  cached_rates :: "rate_table option"

datatype cache_contents = Unparsable | Parsed cache_record

text \<open>
  The object's fields together with what it acts on: the cache file (\<open>None\<close> when it
  does not exist), whether the file can be written, and the number of HTTP requests
  sent to the provider so far.
\<close>

record world =
  exchange_rates :: rate_table
  last_update :: "stamp option"
  supported_currencies :: "string list list"
  cache_file :: "cache_contents option"
  cache_writable :: bool
  requests_sent :: nat

text \<open>
  The outcome of one GET: \<open>RequestException\<close> when \<^verbatim>\<open>requests.get\<close>,
  \<^verbatim>\<open>raise_for_status\<close> or \<^verbatim>\<open>response.json\<close> raises, otherwise the decoded body, of
  which only the fields the code subscripts are kept (\<open>None\<close> when the subscript raises).
\<close>

datatype 'a reply = RequestException | Body 'a

record codes_body =
  supported_codes :: "string list list option"

record latest_body =
  result :: "string option"
  conversion_rates :: "rate_table option"

text \<open>What one operation reads from its environment, in the order of the source.\<close>

record env =
  api_key :: "string option"
  now_load :: int
  codes_reply :: "codes_body reply"
  latest_reply :: "latest_body reply"
  now_fetch :: int
  now_default :: int

definition save_to_cache :: "world \<Rightarrow> (error + unit) \<times> world" where
  "save_to_cache w =
     (if cache_writable w
      then (Inr (),
            w\<lparr>cache_file := Some (Parsed
                 \<lparr>cached_last_update =
                    Some (case last_update w of None \<Rightarrow> NotAStamp | Some s \<Rightarrow> s),
                  cached_rates = Some (exchange_rates w)\<rparr>)\<rparr>)
      else (Inl CacheWriteError, w))"

definition fetch_latest_rates :: "env \<Rightarrow> world \<Rightarrow> (error + bool) \<times> world" where
  "fetch_latest_rates e w =
     (let w0 = w\<lparr>requests_sent := requests_sent w + 1\<rparr> in
      case codes_reply e of
        RequestException \<Rightarrow> (Inr False, w0)
      | Body cb \<Rightarrow>
          (case supported_codes cb of
             None \<Rightarrow> (Inl KeyError, w0)
           | Some cs \<Rightarrow>
               (let w1 = w0\<lparr>supported_currencies := cs, requests_sent := requests_sent w0 + 1\<rparr> in
                case latest_reply e of
                  RequestException \<Rightarrow> (Inr False, w1)
                | Body lb \<Rightarrow>
                    (case result lb of
                       None \<Rightarrow> (Inl KeyError, w1)
                     | Some r \<Rightarrow>
                         if r = ''success'' then
                           (case conversion_rates lb of
                              None \<Rightarrow> (Inl KeyError, w1)
                            | Some rates \<Rightarrow>
                                (case save_to_cache
                                        (w1\<lparr>exchange_rates := rates,
                                            last_update := Some (strftime (now_fetch e))\<rparr>) of
                                   (Inl err, w2) \<Rightarrow> (Inl err, w2)
                                 | (Inr u, w2) \<Rightarrow> (Inr True, w2)))
                         else (Inr False, w1)))))"

definition default_rates :: rate_table where
  "default_rates =
     [''USD'' \<mapsto> float_lit 1, ''EUR'' \<mapsto> float_lit (93 / 100), ''IDR'' \<mapsto> float_lit 15600,
      ''SGD'' \<mapsto> float_lit (135 / 100), ''MYR'' \<mapsto> float_lit (473 / 100),
      ''JPY'' \<mapsto> float_lit (15027 / 100)]"

definition use_default_rates :: "env \<Rightarrow> world \<Rightarrow> world" where
  "use_default_rates e w =
     w\<lparr>exchange_rates := default_rates, last_update := Some (strftime (now_default e))\<rparr>"

text \<open>The body of the \<^verbatim>\<open>try\<close> block of \<^verbatim>\<open>load_or_update_rates\<close>.\<close>

definition fetch_or_raise :: "env \<Rightarrow> world \<Rightarrow> (error + unit) \<times> world" where
  "fetch_or_raise e w =
     (case fetch_latest_rates e w of
        (Inl err, w') \<Rightarrow> (Inl err, w')
      | (Inr ok, w') \<Rightarrow> if \<not> ok then (Inl FetchFailed, w') else (Inr (), w'))"

definition load_cache_or_fetch :: "env \<Rightarrow> world \<Rightarrow> (error + unit) \<times> world" where
  "load_cache_or_fetch e w =
     (case cache_file w of
        None \<Rightarrow> fetch_or_raise e w
      | Some Unparsable \<Rightarrow> (Inl CacheReadError, w)
      | Some (Parsed cache) \<Rightarrow>
          (case cached_last_update cache of
             None \<Rightarrow> (Inl KeyError, w)
           | Some text \<Rightarrow>
               (case strptime text of
                  Inl err \<Rightarrow> (Inl err, w)
                | Inr cache_time \<Rightarrow>
                    if timedelta_days (now_load e - cache_time) < 1 then
                      (case cached_rates cache of
                         None \<Rightarrow> (Inl KeyError, w)
                       | Some rates \<Rightarrow>
                           (Inr (), w\<lparr>exchange_rates := rates, last_update := Some text\<rparr>))
                    else fetch_or_raise e w)))"

definition load_or_update_rates :: "env \<Rightarrow> world \<Rightarrow> (error + unit) \<times> world" where
  "load_or_update_rates e w =
     (case load_cache_or_fetch e w of
        (Inl err, w') \<Rightarrow> (Inr (), use_default_rates e w')
      | (Inr u, w') \<Rightarrow> (Inr (), w'))"

text \<open>The constructor: a new object over the same file system.\<close>

definition init :: "env \<Rightarrow> world \<Rightarrow> (error + unit) \<times> world" where
  "init e w =
     (if api_key e = None \<or> api_key e = Some [] then (Inl MissingApiKey, w)
      else load_or_update_rates e
             (w\<lparr>exchange_rates := Map.empty, last_update := None, supported_currencies := []\<rparr>))"

text \<open>\<^verbatim>\<open>convert\<close> assigns no field and touches no file: it hands the state back as it got it.\<close>

definition convert ::
  "(string \<Rightarrow> string) \<Rightarrow> world \<Rightarrow> pyfloat \<Rightarrow> string \<Rightarrow> string \<Rightarrow> (error + pyfloat) \<times> world" where
  "convert unicode_upper w amount from_currency to_currency =
     (let from_currency = upper unicode_upper from_currency;
          to_currency = upper unicode_upper to_currency in
      case (exchange_rates w from_currency, exchange_rates w to_currency) of
        (Some from_rate, Some to_rate) \<Rightarrow>
          (case float_div amount from_rate of
             Inl err \<Rightarrow> (Inl err, w)
           | Inr amount_in_usd \<Rightarrow> (py_round (ieee_mul amount_in_usd to_rate) 2, w))
      | _ \<Rightarrow> (Inl UnsupportedCurrency, w))"

text \<open>The manual refresh; its value is the line it prints.\<close>

definition update_from_api :: "env \<Rightarrow> world \<Rightarrow> (error + string) \<times> world" where
  "update_from_api e w =
     (case fetch_latest_rates e w of
        (Inl err, w') \<Rightarrow> (Inl err, w')
      | (Inr ok, w') \<Rightarrow>
          if ok then (Inr ''Kurs berhasil diperbarui dari API!'', w')
          else (Inr ''Gagal memperbarui kurs. Menggunakan data terakhir yang tersedia.'', w'))"

section \<open>Sequences of operations\<close>

datatype op = Initialize | FetchLatest | Refresh | Persist | Convert pyfloat string string

text \<open>The object and its files after one operation, whether it returned or raised.\<close>

fun exec :: "(string \<Rightarrow> string) \<Rightarrow> env \<Rightarrow> op \<Rightarrow> world \<Rightarrow> world" where
  "exec unicode_upper e Initialize w = snd (load_or_update_rates e w)"
| "exec unicode_upper e FetchLatest w = snd (fetch_latest_rates e w)"
| "exec unicode_upper e Refresh w = snd (update_from_api e w)"
| "exec unicode_upper e Persist w = snd (save_to_cache w)"
| "exec unicode_upper e (Convert amount from_currency to_currency) w =
     snd (convert unicode_upper w amount from_currency to_currency)"

fun run :: "(string \<Rightarrow> string) \<Rightarrow> (env \<times> op) list \<Rightarrow> world \<Rightarrow> world" where
  "run unicode_upper [] w = w"
| "run unicode_upper ((e, p) # rest) w = run unicode_upper rest (exec unicode_upper e p w)"

section \<open>Predicates of the specification\<close>

text \<open>A rate as the data model has it: strictly positive.\<close>

definition positive :: "pyfloat \<Rightarrow> bool" where
  "positive a = (case a of Fin x \<Rightarrow> 0 < x | PInf \<Rightarrow> True | _ \<Rightarrow> False)"

text \<open>
  Rounding to two decimal places, half to even, as the specification words it: the
  double nearest to the rounded decimal; NaN and the infinities stay.
\<close>

definition round_half_even_2dp :: "pyfloat \<Rightarrow> pyfloat" where
  "round_half_even_2dp a = (case a of Fin x \<Rightarrow> rnd64 (round_decimal x 2) | _ \<Rightarrow> a)"

text \<open>Every reply that arrives carries the fields the code subscripts.\<close>

definition replies_wellformed :: "env \<Rightarrow> bool" where
  "replies_wellformed e =
     (case codes_reply e of
        RequestException \<Rightarrow> True
      | Body cb \<Rightarrow>
          (case supported_codes cb of
             None \<Rightarrow> False
           | Some cs \<Rightarrow>
               (case latest_reply e of
                  RequestException \<Rightarrow> True
                | Body lb \<Rightarrow>
                    (case result lb of
                       None \<Rightarrow> False
                     | Some r \<Rightarrow> if r = ''success'' then conversion_rates lb \<noteq> None else True))))"

text \<open>The table of a provider that answers both requests and reports success.\<close>

definition reported_rates :: "env \<Rightarrow> rate_table option" where
  "reported_rates e =
     (case codes_reply e of
        RequestException \<Rightarrow> None
      | Body cb \<Rightarrow>
          (case supported_codes cb of
             None \<Rightarrow> None
           | Some cs \<Rightarrow>
               (case latest_reply e of
                  RequestException \<Rightarrow> None
                | Body lb \<Rightarrow> if result lb = Some ''success'' then conversion_rates lb else None)))"

text \<open>The pivot invariant of the data model, on a table, on the cache file, on a reply.\<close>

definition usd_ok :: "rate_table \<Rightarrow> bool" where
  "usd_ok rates = (case rates ''USD'' of None \<Rightarrow> True | Some r \<Rightarrow> r = Fin 1)"

definition cache_usd_ok :: "cache_contents option \<Rightarrow> bool" where
  "cache_usd_ok f =
     (case f of
        Some (Parsed c) \<Rightarrow> (case cached_rates c of None \<Rightarrow> True | Some rates \<Rightarrow> usd_ok rates)
      | _ \<Rightarrow> True)"

definition env_usd_ok :: "env \<Rightarrow> bool" where
  "env_usd_ok e =
     (case latest_reply e of
        Body lb \<Rightarrow> (case conversion_rates lb of None \<Rightarrow> True | Some rates \<Rightarrow> usd_ok rates)
      | RequestException \<Rightarrow> True)"

definition table_and_cache_ok :: "world \<Rightarrow> bool" where
  "table_and_cache_ok w = (usd_ok (exchange_rates w) \<and> cache_usd_ok (cache_file w))"

section \<open>Sample states and environments\<close>

text \<open>
  The codes of the examples are ASCII, so the Unicode mapping is never consulted there;
  any function serves as the parameter.
\<close>

definition plain_upper :: "string \<Rightarrow> string" where
  "plain_upper s = s"

definition sample_world :: world where
  "sample_world =
     \<lparr>exchange_rates = default_rates, last_update = Some (Stamp 1700000000),
      supported_currencies = [], cache_file = None, cache_writable = True, requests_sent = 0\<rparr>"

definition fresh_world :: world where
  "fresh_world =
     \<lparr>exchange_rates = Map.empty, last_update = None, supported_currencies = [],
      cache_file = None, cache_writable = True, requests_sent = 0\<rparr>"

text \<open>A provider that is down, and one that answers with a table.\<close>

definition quiet_env :: env where
  "quiet_env =
     \<lparr>api_key = Some ''key'', now_load = 1700000000000000,
      codes_reply = RequestException, latest_reply = RequestException,
      now_fetch = 1700000000000000, now_default = 1700000000000000\<rparr>"

definition provider_up :: env where
  "provider_up =
     \<lparr>api_key = Some ''key'', now_load = 1700000000000000,
      codes_reply = Body \<lparr>supported_codes = Some [[''USD'', ''United States Dollar'']]\<rparr>,
      latest_reply =
        Body \<lparr>result = Some ''success'',
              conversion_rates = Some [''USD'' \<mapsto> Fin 1, ''EUR'' \<mapsto> Fin (7 / 8)]\<rparr>,
      now_fetch = 1700000000000000, now_default = 1700000000000000\<rparr>"

text \<open>A cache written 23 hours before \<open>now_load provider_up\<close>.\<close>

definition day_old_cache :: cache_record where
  "day_old_cache =
     \<lparr>cached_last_update = Some (Stamp 1699917200),
      cached_rates = Some [''USD'' \<mapsto> Fin 1, ''EUR'' \<mapsto> Fin (3 / 4)]\<rparr>"

definition cached_world :: world where
  "cached_world = fresh_world\<lparr>cache_file := Some (Parsed day_old_cache)\<rparr>"

text \<open>
  A process holding a table that is neither the default one nor the provider's, and a
  later process, with another table in memory, that finds the file the first one saved.
\<close>

definition priced_world :: world where
  "priced_world =
     fresh_world\<lparr>exchange_rates := [''USD'' \<mapsto> Fin 1, ''EUR'' \<mapsto> Fin (3 / 4)],
                 last_update := Some (Stamp 1699917200)\<rparr>"

definition second_process :: world where
  "second_process =
     fresh_world\<lparr>exchange_rates := [''USD'' \<mapsto> Fin 1, ''EUR'' \<mapsto> Fin (1 / 2)],
                 cache_file := cache_file (snd (save_to_cache priced_world)),
                 requests_sent := 5\<rparr>"

definition corrupt_world :: world where
  "corrupt_world = fresh_world\<lparr>cache_file := Some Unparsable\<rparr>"

text \<open>A first reply without \<^verbatim>\<open>supported_codes\<close>; a table whose pivot rate is 2.\<close>

definition keyless_env :: env where
  "keyless_env = provider_up\<lparr>codes_reply := Body \<lparr>supported_codes = None\<rparr>\<rparr>"

definition usd2_env :: env where
  "usd2_env =
     provider_up\<lparr>latest_reply :=
       Body \<lparr>result = Some ''success'',
             conversion_rates = Some [''USD'' \<mapsto> Fin 2, ''EUR'' \<mapsto> Fin (3 / 4)]\<rparr>\<rparr>"

definition usd2_world :: world where
  "usd2_world = fresh_world\<lparr>exchange_rates := [''USD'' \<mapsto> Fin 2, ''EUR'' \<mapsto> Fin (3 / 4)]\<rparr>"

definition sample_steps :: "(env \<times> op) list" where
  "sample_steps =
     [(provider_up, Initialize), (quiet_env, Refresh),
      (quiet_env, Convert (Fin 100) ''usd'' ''eur''), (provider_up, Persist),
      (quiet_env, Initialize), (provider_up, FetchLatest)]"

section \<open>Arithmetic of the float model\<close>

lemma pow2_powi: "pow2 e = 2 powi e"
  by (simp add: pow2_def power_int_def inverse_eq_divide power_one_over)

lemma pow2_pos: "0 < pow2 e"
  by (simp add: pow2_powi)

lemma pow2_add: "pow2 (a + b) = pow2 a * pow2 b"
  by (simp add: pow2_powi power_int_add)

lemma pow2_less: "a < b \<Longrightarrow> pow2 a < pow2 b"
  by (simp add: pow2_powi power_int_strict_increasing)

lemma pow2_le: "a \<le> b \<Longrightarrow> pow2 a \<le> pow2 b"
  by (simp add: pow2_powi power_int_increasing)

lemma pow2_of_int: "0 \<le> e \<Longrightarrow> pow2 e = of_int (2 ^ nat e)"
  by (simp add: pow2_def)

lemma rhe_of_int: "round_half_even (of_int n) = n"
  by (simp add: round_half_even_def)

lemma rhe_err: "\<bar>of_int (round_half_even x) - x\<bar> \<le> 1 / 2"
proof -
  have "of_int \<lfloor>x\<rfloor> \<le> x" "x < of_int \<lfloor>x\<rfloor> + 1" by linarith+
  then show ?thesis
    by (auto simp: round_half_even_def Let_def abs_le_iff)
qed

lemma rhe_le: "x \<le> of_int n \<Longrightarrow> round_half_even x \<le> n"
proof -
  assume "x \<le> of_int n"
  with rhe_err [of x] have "(of_int (round_half_even x) :: rat) < of_int (n + 1)"
    unfolding abs_le_iff of_int_add by linarith
  then have "round_half_even x < n + 1" by (simp only: of_int_less_iff)
  then show ?thesis by simp
qed

lemma rhe_ge: "of_int n \<le> x \<Longrightarrow> n \<le> round_half_even x"
proof -
  assume "of_int n \<le> x"
  with rhe_err [of x] have "(of_int (n - 1) :: rat) < of_int (round_half_even x)"
    unfolding abs_le_iff of_int_diff by linarith
  then have "n - 1 < round_half_even x" by (simp only: of_int_less_iff)
  then show ?thesis by simp
qed

lemma flog2_bounds:
  assumes "x \<noteq> 0"
  shows "pow2 (flog2 x) \<le> \<bar>x\<bar>" and "\<bar>x\<bar> < pow2 (flog2 x + 1)"
proof -
  obtain a b where q: "quotient_of \<bar>x\<bar> = (a, b)" by (cases "quotient_of \<bar>x\<bar>")
  have b: "0 < b" using quotient_of_denom_pos [OF q] .
  have xab: "\<bar>x\<bar> = of_int a / of_int b" using quotient_of_div [OF q] .
  have a: "0 < a"
  proof -
    have "0 < \<bar>x\<bar>" using assms by simp
    then have "0 < (of_int a :: rat) / of_int b" by (simp only: xab)
    with b show ?thesis by (simp add: zero_less_divide_iff)
  qed
  define d where "d = bitlen a - bitlen b"
  have la: "0 \<le> bitlen a" and lb: "0 \<le> bitlen b" by (rule bitlen_nonneg)+
  have lb1: "1 \<le> bitlen b" using b bitlen_eq_zero_iff [of b] lb by linarith
  have la1: "1 \<le> bitlen a" using a bitlen_eq_zero_iff [of a] la by linarith
  have a_up: "(of_int a :: rat) < pow2 (bitlen a)"
    using bitlen_bounds [OF a] la
    by (metis of_int_less_iff pow2_of_int)
  have a_lo: "pow2 (bitlen a - 1) \<le> (of_int a :: rat)"
    using bitlen_bounds [OF a] la1
    by (metis diff_ge_0_iff_ge of_int_le_iff pow2_of_int)
  have b_up: "(of_int b :: rat) < pow2 (bitlen b)"
    using bitlen_bounds [OF b] lb
    by (metis of_int_less_iff pow2_of_int)
  have b_lo: "pow2 (bitlen b - 1) \<le> (of_int b :: rat)"
    using bitlen_bounds [OF b] lb1
    by (metis diff_ge_0_iff_ge of_int_le_iff pow2_of_int)
  have bpos: "0 < (of_int b :: rat)" using b by simp
  have up: "\<bar>x\<bar> < pow2 (d + 1)"
  proof -
    have "pow2 (d + 1) * pow2 (bitlen b - 1) = pow2 (bitlen a)"
      by (simp add: pow2_add [symmetric] d_def)
    then have "of_int a < pow2 (d + 1) * pow2 (bitlen b - 1)" using a_up by simp
    also have "\<dots> \<le> pow2 (d + 1) * of_int b"
      using b_lo pow2_pos [of "d + 1"] by (simp add: mult_left_mono)
    finally show ?thesis using bpos by (simp add: xab pos_divide_less_eq)
  qed
  have lo: "pow2 (d - 1) \<le> \<bar>x\<bar>"
  proof -
    have e: "pow2 (d - 1) * pow2 (bitlen b) = pow2 (bitlen a - 1)"
      by (simp add: pow2_add [symmetric] d_def)
    have "pow2 (d - 1) * of_int b \<le> pow2 (d - 1) * pow2 (bitlen b)"
      using b_up pow2_pos [of "d - 1"] by (simp add: mult_left_mono)
    also have "\<dots> \<le> of_int a" using a_lo e by simp
    finally show ?thesis using bpos by (simp add: xab pos_le_divide_eq)
  qed
  have f: "flog2 x = (if pow2 d \<le> \<bar>x\<bar> then d else d - 1)"
    by (simp add: flog2_def q d_def Let_def)
  show "pow2 (flog2 x) \<le> \<bar>x\<bar>" using lo by (simp add: f)
  show "\<bar>x\<bar> < pow2 (flog2 x + 1)" using up by (auto simp add: f)
qed

lemma flog2_unique:
  assumes "pow2 k \<le> \<bar>x\<bar>" and "\<bar>x\<bar> < pow2 (k + 1)"
  shows "flog2 x = k"
proof -
  have "x \<noteq> 0" using assms(1) pow2_pos [of k] by auto
  note b = flog2_bounds [OF this]
  have "\<not> flog2 x < k"
  proof
    assume "flog2 x < k"
    then have "pow2 (flog2 x + 1) \<le> pow2 k" by (simp add: pow2_le)
    with b(2) assms(1) show False by simp
  qed
  moreover have "\<not> k < flog2 x"
  proof
    assume "k < flog2 x"
    then have "pow2 (k + 1) \<le> pow2 (flog2 x)" by (simp add: pow2_le)
    with b(1) assms(2) show False by simp
  qed
  ultimately show ?thesis by simp
qed

lemma flog2_less:
  assumes "x \<noteq> 0" and "\<bar>x\<bar> < pow2 k"
  shows "flog2 x < k"
proof (rule ccontr)
  assume "\<not> flog2 x < k"
  then have "pow2 k \<le> pow2 (flog2 x)" by (simp add: pow2_le)
  with flog2_bounds(1) [OF assms(1)] assms(2) show False by simp
qed

lemma rnd64_fix:
  assumes "y = of_int k * pow2 (max (flog2 y) (- 1022) - 52)" and "\<bar>y\<bar> < pow2 1024"
  shows "rnd64 y = Fin y"
proof (cases "y = 0")
  case True
  then show ?thesis by (simp add: rnd64_def)
next
  case False
  define u where "u = pow2 (max (flog2 y) (- 1022) - 52)"
  have u: "0 < u" by (simp add: u_def pow2_pos)
  have "y / u = of_int k" using assms(1) u by (simp add: u_def [symmetric])
  then have "of_int (round_half_even (y / u)) * u = y"
    using assms(1) by (simp add: rhe_of_int u_def [symmetric])
  then show ?thesis
    using False assms(2) by (simp add: rnd64_def Let_def u_def [symmetric] not_le [symmetric])
qed

text \<open>The shape of a rounded value.\<close>

lemma rnd64_shape:
  assumes "x \<noteq> 0"
  defines "e \<equiv> max (flog2 x) (- 1022)"
  defines "m \<equiv> round_half_even (x / pow2 (e - 52))"
  shows "\<bar>m\<bar> \<le> 2 ^ 53"
    and "\<bar>of_int m * pow2 (e - 52)\<bar> \<le> pow2 (e + 1)"
proof -
  have u: "0 < pow2 (e - 52)" by (rule pow2_pos)
  have "pow2 53 * pow2 (e - 52) = pow2 (53 + (e - 52))" by (rule pow2_add [symmetric])
  also have "53 + (e - 52) = e + 1" by simp
  finally have h: "pow2 53 * pow2 (e - 52) = pow2 (e + 1)" .
  have "\<bar>x\<bar> < pow2 (flog2 x + 1)" using flog2_bounds(2) [OF assms(1)] .
  also have "\<dots> \<le> pow2 (e + 1)" by (rule pow2_le) (simp add: e_def)
  also have "\<dots> = pow2 53 * pow2 (e - 52)" by (simp only: h)
  finally have "\<bar>x\<bar> / pow2 (e - 52) < pow2 53" using u by (simp add: pos_divide_less_eq)
  then have b: "\<bar>x / pow2 (e - 52)\<bar> < of_int (2 ^ 53)" using u by (simp add: pow2_def)
  have b1: "x / pow2 (e - 52) \<le> of_int (2 ^ 53)"
    and b2: "of_int (- (2 ^ 53)) \<le> x / pow2 (e - 52)"
    using b unfolding of_int_minus by linarith+
  have "m \<le> 2 ^ 53" unfolding m_def using b1 by (rule rhe_le)
  moreover have "- (2 ^ 53) \<le> m" unfolding m_def using b2 by (rule rhe_ge)
  ultimately show m: "\<bar>m\<bar> \<le> 2 ^ 53" by simp
  then have "\<bar>(of_int m :: rat)\<bar> \<le> of_int (2 ^ 53)"
    by (simp only: of_int_abs [symmetric] of_int_le_iff)
  then have "\<bar>(of_int m :: rat)\<bar> \<le> pow2 53" by (simp add: pow2_def)
  then have "\<bar>of_int m :: rat\<bar> * pow2 (e - 52) \<le> pow2 53 * pow2 (e - 52)"
    using u by (simp add: mult_right_mono)
  then show "\<bar>of_int m * pow2 (e - 52)\<bar> \<le> pow2 (e + 1)"
    using u by (simp add: abs_mult h)
qed

lemma rnd64_FinD:
  assumes "rnd64 x = Fin y" and "x \<noteq> 0"
  shows "y = of_int (round_half_even (x / pow2 (max (flog2 x) (- 1022) - 52)))
               * pow2 (max (flog2 x) (- 1022) - 52)"
    and "\<bar>y\<bar> < pow2 1024"
  using assms by (auto simp add: rnd64_def Let_def split: if_splits)

lemma rnd64_idem:
  assumes "rnd64 x = Fin y"
  shows "rnd64 y = Fin y"
proof (cases "x = 0 \<or> y = 0")
  case True
  then have "y = 0" using assms by (auto simp add: rnd64_def)
  then show ?thesis by (simp add: rnd64_def)
next
  case False
  then have x: "x \<noteq> 0" and y: "y \<noteq> 0" by simp_all
  define e where "e = max (flog2 x) (- 1022)"
  define m where "m = round_half_even (x / pow2 (e - 52))"
  have ym: "y = of_int m * pow2 (e - 52)" and fin: "\<bar>y\<bar> < pow2 1024"
    using rnd64_FinD [OF assms x] by (simp_all add: e_def m_def)
  have m: "\<bar>m\<bar> \<le> 2 ^ 53" and yb: "\<bar>y\<bar> \<le> pow2 (e + 1)"
    using rnd64_shape [OF x] by (simp_all add: e_def m_def ym)
  define e' where "e' = max (flog2 y) (- 1022)"
  have "\<bar>y\<bar> < pow2 (e + 2)"
    using yb pow2_less [of "e + 1" "e + 2"] by simp
  then have "flog2 y < e + 2" by (rule flog2_less [OF y])
  moreover have "- 1022 \<le> e" by (simp add: e_def)
  ultimately have "e' \<le> e \<or> (e' = e + 1 \<and> flog2 y = e + 1)"
    unfolding e'_def max_def by (cases "flog2 y \<le> e") simp_all
  then consider "e' \<le> e" | "e' = e + 1" "flog2 y = e + 1"
    by blast
  then have "\<exists>k. y = of_int k * pow2 (e' - 52)"
  proof cases
    case 1
    have "pow2 (e - 52) = pow2 ((e - e') + (e' - 52))" by simp
    also have "\<dots> = pow2 (e - e') * pow2 (e' - 52)" by (rule pow2_add)
    also have "pow2 (e - e') = of_int (2 ^ nat (e - e'))" using 1 by (simp add: pow2_of_int)
    finally have "y = of_int (m * 2 ^ nat (e - e')) * pow2 (e' - 52)"
      by (simp add: ym)
    then show ?thesis by blast
  next
    case 2
    have "pow2 (e + 1) \<le> \<bar>y\<bar>" using flog2_bounds(1) [OF y] 2 by simp
    with yb have eq: "\<bar>y\<bar> = pow2 (e + 1)" by simp
    have "pow2 (e + 1) = pow2 (53 + (e - 52))" by (rule arg_cong [where f = pow2]) simp
    also have "\<dots> = pow2 53 * pow2 (e - 52)" by (rule pow2_add)
    finally have "\<bar>of_int m :: rat\<bar> * pow2 (e - 52) = pow2 53 * pow2 (e - 52)"
      using eq pow2_pos [of "e - 52"] by (simp add: ym abs_mult)
    then have "\<bar>of_int m :: rat\<bar> = pow2 53" using pow2_pos [of "e - 52"] by simp
    then have "(of_int \<bar>m\<bar> :: rat) = of_int (2 ^ 53)" by (simp add: pow2_def)
    then have am: "\<bar>m\<bar> = 2 ^ 53" by (simp only: of_int_eq_iff)
    have "even \<bar>m\<bar>" unfolding am by simp
    then have "even m" by (simp only: dvd_abs_iff)
    then obtain k where k: "m = 2 * k" by (auto elim: evenE)
    have "pow2 (e' - 52) = pow2 (1 + (e - 52))" using 2 by simp
    also have "\<dots> = pow2 1 * pow2 (e - 52)" by (rule pow2_add)
    finally have "y = of_int k * pow2 (e' - 52)" by (simp add: ym k pow2_def)
    then show ?thesis by blast
  qed
  then obtain k where "y = of_int k * pow2 (max (flog2 y) (- 1022) - 52)"
    by (auto simp add: e'_def)
  then show ?thesis using fin by (rule rnd64_fix)
qed

lemma rnd64_finite:
  assumes "\<bar>x\<bar> < pow2 1023"
  shows "\<exists>y. rnd64 x = Fin y"
proof (cases "x = 0")
  case True
  then show ?thesis by (simp add: rnd64_def)
next
  case False
  define e where "e = max (flog2 x) (- 1022)"
  define y where "y = of_int (round_half_even (x / pow2 (e - 52))) * pow2 (e - 52)"
  have "flog2 x < 1023" by (rule flog2_less [OF False assms])
  then have "e + 1 \<le> 1023" by (simp add: e_def)
  have "\<bar>y\<bar> \<le> pow2 (e + 1)"
    using rnd64_shape(2) [OF False] by (simp add: e_def y_def)
  also have "\<dots> \<le> pow2 1023" using \<open>e + 1 \<le> 1023\<close> by (rule pow2_le)
  also have "\<dots> < pow2 1024" by (rule pow2_less) simp
  finally have "\<not> pow2 1024 \<le> \<bar>y\<bar>" by simp
  then have "rnd64 x = Fin y"
    using False by (simp add: rnd64_def Let_def e_def [symmetric] y_def [symmetric])
  then show ?thesis by blast
qed

text \<open>A double that is not a whole number lies below \<open>2 ^ 52\<close>.\<close>

lemma double_fraction_small:
  assumes "rnd64 q = Fin q" and "q \<notin> \<int>"
  shows "\<bar>q\<bar> < pow2 52"
proof (rule ccontr)
  assume "\<not> \<bar>q\<bar> < pow2 52"
  then have big: "pow2 52 \<le> \<bar>q\<bar>" by simp
  have q: "q \<noteq> 0" using assms(2) by auto
  have "\<not> flog2 q < 52"
  proof
    assume "flog2 q < 52"
    then have "pow2 (flog2 q + 1) \<le> pow2 52" by (simp add: pow2_le)
    with flog2_bounds(2) [OF q] big show False by simp
  qed
  then have e: "max (flog2 q) (- 1022) = flog2 q" and ge: "0 \<le> flog2 q - 52" by simp_all
  define m where "m = round_half_even (q / pow2 (flog2 q - 52))"
  have "q = of_int m * pow2 (flog2 q - 52)"
    using rnd64_FinD(1) [OF assms(1) q] by (simp add: e m_def)
  also have "pow2 (flog2 q - 52) = of_int (2 ^ nat (flog2 q - 52))"
    using ge by (rule pow2_of_int)
  finally have "q = of_int (m * 2 ^ nat (flog2 q - 52))"
    by simp
  then have "q \<in> \<int>" by (metis Ints_of_int)
  with assms(2) show False by simp
qed

lemma round_decimal_of_int: "round_decimal (of_int j) n = of_int j"
proof -
  have "(of_int j :: rat) * 10 ^ n = of_int (j * 10 ^ n)" by simp
  then show ?thesis by (simp only: round_decimal_def rhe_of_int) simp
qed

lemma round_decimal_err: "\<bar>round_decimal x n - x\<bar> \<le> 1 / 2"
proof -
  have p: "(1 :: rat) \<le> 10 ^ n" by simp
  then have p0: "(0 :: rat) < 10 ^ n" by simp
  have "round_decimal x n - x = (of_int (round_half_even (x * 10 ^ n)) - x * 10 ^ n) / 10 ^ n"
    using p0 by (simp add: round_decimal_def diff_divide_distrib)
  then have "\<bar>round_decimal x n - x\<bar> = \<bar>of_int (round_half_even (x * 10 ^ n)) - x * 10 ^ n\<bar> / 10 ^ n"
    using p0 by (simp add: abs_divide)
  also have "\<dots> \<le> (1 / 2) / 10 ^ n"
    using rhe_err [of "x * 10 ^ n"] p0 by (simp only: divide_right_mono less_imp_le)
  also have "\<dots> \<le> 1 / 2" using p by (simp add: field_simps)
  finally show ?thesis .
qed

lemma py_round_total:
  assumes "is_double a"
  shows "\<exists>v. py_round a n = Inr v"
proof (cases a)
  case (Fin q)
  then have fx: "rnd64 q = Fin q" using assms by (simp add: is_double_def)
  have "\<exists>y. rnd64 (round_decimal q n) = Fin y"
  proof (cases "q \<in> \<int>")
    case True
    then obtain j where "q = of_int j" by (auto elim: Ints_cases)
    then show ?thesis using fx by (simp add: round_decimal_of_int)
  next
    case False
    have "\<bar>round_decimal q n\<bar> \<le> \<bar>q\<bar> + 1 / 2"
      using round_decimal_err [of q n] by linarith
    also have "\<dots> < pow2 52 + 1 / 2" using double_fraction_small [OF fx False] by simp
    also have "\<dots> \<le> pow2 53" by (simp add: pow2_def)
    also have "\<dots> \<le> pow2 1023" by (rule pow2_le) simp
    finally show ?thesis by (rule rnd64_finite)
  qed
  then show ?thesis using Fin by (auto simp add: py_round_def)
qed (simp_all add: py_round_def)

lemma is_double_rnd64: "is_double (rnd64 x)"
  by (cases "rnd64 x") (simp_all add: is_double_def rnd64_idem)

lemma is_double_ieee_mul: "is_double (ieee_mul a b)"
  by (cases "(a, b)" rule: ieee_mul.cases) (simp_all add: is_double_rnd64, simp_all add: is_double_def)

lemma is_double_ieee_div: "is_double (ieee_div a b)"
  by (cases "(a, b)" rule: ieee_div.cases) (simp_all add: is_double_rnd64, simp_all add: is_double_def rnd64_def)

lemma ieee_div_one: "is_double a \<Longrightarrow> ieee_div a (Fin 1) = a"
  by (cases a) (simp_all add: is_double_def)

lemma ieee_mul_one: "is_double a \<Longrightarrow> ieee_mul a (Fin 1) = a"
  by (cases a) (simp_all add: is_double_def)

lemma rhe_unique:
  assumes "\<bar>x - of_int m\<bar> < 1 / 2"
  shows "round_half_even x = m"
proof -
  have "\<bar>(of_int (round_half_even x) :: rat) - of_int m\<bar> < 1"
    using rhe_err [of x] assms by linarith
  then have "\<bar>of_int (round_half_even x - m) :: rat\<bar> < of_int 1" by simp
  then have "\<bar>round_half_even x - m\<bar> < 1"
    by (simp only: of_int_abs [symmetric] of_int_less_iff)
  then show ?thesis by simp
qed

text \<open>Checking a rounding from its exponent and its integral significand.\<close>

lemma rnd64_cert:
  assumes "pow2 k \<le> \<bar>x\<bar>" and "\<bar>x\<bar> < pow2 (k + 1)" and "- 1022 \<le> k" and "k \<le> 1022"
    and "\<bar>x / pow2 (k - 52) - of_int m\<bar> < 1 / 2"
  shows "rnd64 x = Fin (of_int m * pow2 (k - 52))"
proof -
  have x: "x \<noteq> 0" using assms(1) pow2_pos [of k] by auto
  have f: "flog2 x = k" using assms(1,2) by (rule flog2_unique)
  have e: "max (flog2 x) (- 1022) = k" using assms(3) by (simp add: f)
  have r: "round_half_even (x / pow2 (k - 52)) = m" using assms(5) by (rule rhe_unique)
  have "\<bar>of_int m * pow2 (k - 52)\<bar> \<le> pow2 (k + 1)"
    using rnd64_shape(2) [OF x] by (simp add: e r)
  also have "\<dots> \<le> pow2 1023" by (rule pow2_le) (use assms(4) in simp)
  also have "\<dots> < pow2 1024" by (rule pow2_less) simp
  finally have "\<not> pow2 1024 \<le> \<bar>of_int m * pow2 (k - 52)\<bar>" by simp
  then show ?thesis using x by (simp add: rnd64_def Let_def e r)
qed

lemma round_decimal_cert:
  assumes "\<bar>x * 10 ^ n - of_int m\<bar> < 1 / 2"
  shows "round_decimal x n = of_int m / 10 ^ n"
  using rhe_unique [OF assms] by (simp add: round_decimal_def)

lemma py_round_cert:
  assumes "round_decimal x n = z" and "rnd64 z = Fin y" and "n \<le> 323"
  shows "py_round (Fin x) n = Inr (Fin y)"
  using assms by (simp add: py_round_def)

text \<open>The doubles that the literals and the sample amounts denote.\<close>

lemma rnd64_1: "rnd64 (1) = Fin (1)"
  using rnd64_cert [where k = "0" and x = "1" and m = 4503599627370496]
  by (simp add: pow2_def)

lemma rnd64_093: "rnd64 (93 / 100) = Fin (8376695306909123 / 9007199254740992)"
  using rnd64_cert [where k = "-1" and x = "93 / 100" and m = 8376695306909123]
  by (simp add: pow2_def)

lemma rnd64_15600: "rnd64 (15600) = Fin (15600)"
  using rnd64_cert [where k = "13" and x = "15600" and m = 8576190696652800]
  by (simp add: pow2_def)

lemma rnd64_135: "rnd64 (135 / 100) = Fin (3039929748475085 / 2251799813685248)"
  using rnd64_cert [where k = "0" and x = "135 / 100" and m = 6079859496950170]
  by (simp add: pow2_def)

lemma rnd64_473: "rnd64 (473 / 100) = Fin (1331376639841403 / 281474976710656)"
  using rnd64_cert [where k = "2" and x = "473 / 100" and m = 5325506559365612]
  by (simp add: pow2_def)

lemma rnd64_15027: "rnd64 (15027 / 100) = Fin (5287155593788785 / 35184372088832)"
  using rnd64_cert [where k = "7" and x = "15027 / 100" and m = 5287155593788785]
  by (simp add: pow2_def)

lemma rnd64_100: "rnd64 (100) = Fin (100)"
  using rnd64_cert [where k = "6" and x = "100" and m = 7036874417766400]
  by (simp add: pow2_def)

lemma rnd64_1560000: "rnd64 (1560000) = Fin (1560000)"
  using rnd64_cert [where k = "20" and x = "1560000" and m = 6700148981760000]
  by (simp add: pow2_def)

lemma rnd64_50: "rnd64 (50) = Fin (50)"
  using rnd64_cert [where k = "5" and x = "50" and m = 7036874417766400]
  by (simp add: pow2_def)

lemma rnd64_75: "rnd64 (75) = Fin (75)"
  using rnd64_cert [where k = "6" and x = "75" and m = 5277655813324800]
  by (simp add: pow2_def)

lemma rnd64_75_2: "rnd64 (75 / 2) = Fin (75 / 2)"
  using rnd64_cert [where k = "5" and x = "75 / 2" and m = 5277655813324800]
  by (simp add: pow2_def)

lemma rnd64_31_8: "rnd64 (31 / 8) = Fin (31 / 8)"
  using rnd64_cert [where k = "1" and x = "31 / 8" and m = 8725724278030336]
  by (simp add: pow2_def)

lemma rnd64_387: "rnd64 (387 / 100) = Fin (4357232639480955 / 1125899906842624)"
  using rnd64_cert [where k = "1" and x = "387 / 100" and m = 8714465278961910]
  by (simp add: pow2_def)

lemma rnd64_388: "rnd64 (388 / 100) = Fin (4368491638549381 / 1125899906842624)"
  using rnd64_cert [where k = "1" and x = "388 / 100" and m = 8736983277098762]
  by (simp add: pow2_def)

lemma eur_quotient: "ieee_div (Fin (31 / 8)) (Fin (8376695306909123 / 9007199254740992)) = Fin (2345624805922133 / 562949953421312)"
  using rnd64_cert [where k = "2" and x = "(31 / 8) / (8376695306909123 / 9007199254740992)" and m = 4691249611844266]
  by (simp add: pow2_def)

lemma eur_product: "ieee_mul (Fin (2345624805922133 / 562949953421312)) (Fin (8376695306909123 / 9007199254740992)) = Fin (8725724278030335 / 2251799813685248)"
  using rnd64_cert [where k = "1" and x = "(2345624805922133 / 562949953421312) * (8376695306909123 / 9007199254740992)" and m = 8725724278030335]
  by (simp add: pow2_def)

lemma eur_product_decimal: "round_decimal (8725724278030335 / 2251799813685248) 2 = 387 / 100"
  using round_decimal_cert [where x = "8725724278030335 / 2251799813685248" and n = 2 and m = 387] by simp

section \<open>Properties of the model's parts\<close>

lemma rhe_tie_even:
  assumes a: "\<bar>of_int (round_half_even x) - x\<bar> = 1 / 2"
  shows "even (round_half_even x)"
proof -
  define f where "f = \<lfloor>x\<rfloor>"
  define d where "d = x - of_int f"
  have d: "0 \<le> d" "d < 1" unfolding d_def f_def by linarith+
  have r: "round_half_even x =
             (if d < 1 / 2 then f else if 1 / 2 < d then f + 1 else if even f then f else f + 1)"
    by (simp add: round_half_even_def Let_def f_def d_def)
  consider "d < 1 / 2" | "1 / 2 < d" | "d = 1 / 2" by linarith
  then show ?thesis
  proof cases
    case 1
    then have e: "round_half_even x = f" by (simp add: r)
    have "of_int (round_half_even x) - x = - d" unfolding e d_def by simp
    then have "\<bar>of_int (round_half_even x) - x\<bar> = d" using d by simp
    with a 1 show ?thesis by simp
  next
    case 2
    then have e: "round_half_even x = f + 1" by (simp add: r)
    have "of_int (round_half_even x) - x = 1 - d" unfolding e d_def by simp
    then have "\<bar>of_int (round_half_even x) - x\<bar> = 1 - d" using d by simp
    with a 2 show ?thesis by simp
  next
    case 3
    then show ?thesis by (simp add: r)
  qed
qed

lemma rhe_tie:
  assumes "x = of_int f + 1 / 2"
  shows "round_half_even x = (if even f then f else f + 1)"
proof -
  have "\<lfloor>x\<rfloor> = f" unfolding assms by (rule floor_unique) simp_all
  then show ?thesis by (simp add: round_half_even_def Let_def assms)
qed

lemma py_round_2dp: "is_double a \<Longrightarrow> py_round a 2 = Inr (round_half_even_2dp a)"
  using py_round_total [of a 2]
  by (cases a) (auto simp add: py_round_def round_half_even_2dp_def split: pyfloat.splits)

lemma py_round_not_unsupported: "py_round a n \<noteq> Inl UnsupportedCurrency"
  by (auto simp add: py_round_def split: pyfloat.splits)

lemmas upper_eval = upper_def is_ascii_def upper_char_def char_of_eq_iff

lemma upper_USD: "upper unicode_upper ''USD'' = ''USD''"
  by (simp add: upper_eval)

text \<open>On ASCII text no Unicode mapping matters, and uppercasing twice is uppercasing once.\<close>

lemma upper_char_idem: "upper_char (upper_char c) = upper_char c"
  by (auto simp add: upper_char_def Let_def)

lemma is_ascii_upper: "is_ascii s \<Longrightarrow> is_ascii (map upper_char s)"
  by (induction s) (auto simp add: is_ascii_def upper_char_def Let_def)

lemma upper_ascii_idem:
  "is_ascii s \<Longrightarrow> upper unicode_upper (upper unicode_upper s) = upper unicode_upper s"
  by (simp add: upper_def is_ascii_upper upper_char_idem)

lemma convert_snd: "snd (convert unicode_upper w amount f t) = w"
  by (simp add: convert_def Let_def float_div_def split: option.splits)

lemma days1: "timedelta_days d < 1 \<longleftrightarrow> d < 86400000000"
proof -
  have "0 < d div 86400000000 \<longleftrightarrow> 86400000000 \<le> d"
    by (rule pos_imp_zdiv_pos_iff) simp
  then show ?thesis unfolding timedelta_days_def by linarith
qed

lemma days2: "timedelta_days d = 0 \<longleftrightarrow> 0 \<le> d \<and> d < 86400000000"
  by (auto simp add: timedelta_days_def zdiv_eq_0_iff)

lemma fetch_counts: "requests_sent w < requests_sent (snd (fetch_latest_rates e w))"
  by (simp add: fetch_latest_rates_def save_to_cache_def Let_def
           split: reply.splits option.splits)

lemma fetch_False_unchanged:
  assumes "fst (fetch_latest_rates e w) = Inr False"
  shows "exchange_rates (snd (fetch_latest_rates e w)) = exchange_rates w"
    and "last_update (snd (fetch_latest_rates e w)) = last_update w"
    and "cache_file (snd (fetch_latest_rates e w)) = cache_file w"
  using assms
  by (simp_all add: fetch_latest_rates_def save_to_cache_def Let_def
           split: reply.splits option.splits if_splits)

lemma refresh_snd: "snd (update_from_api e w) = snd (fetch_latest_rates e w)"
  by (simp add: update_from_api_def split: prod.splits sum.splits)

lemma fetch_or_raise_snd: "snd (fetch_or_raise e w) = snd (fetch_latest_rates e w)"
  by (simp add: fetch_or_raise_def split: prod.splits sum.splits)

lemma fetch_or_raise_fst:
  "fst (fetch_or_raise e w) = Inr () \<longleftrightarrow> fst (fetch_latest_rates e w) = Inr True"
  by (auto simp add: fetch_or_raise_def split: prod.splits sum.splits)

text \<open>Initialisation never raises.\<close>

lemma init_never_raises: "fst (load_or_update_rates e w) = Inr ()"
  by (simp add: load_or_update_rates_def split: prod.splits sum.splits)

text \<open>A cache file that cannot be read or parsed sends initialisation straight to the defaults.\<close>

lemma init_unparsable:
  "cache_file w = Some Unparsable \<Longrightarrow> load_or_update_rates e w = (Inr (), use_default_rates e w)"
  by (simp add: load_or_update_rates_def load_cache_or_fetch_def)

text \<open>With no cache file, or a cache at least 24 hours old, initialisation calls the provider.\<close>

lemma init_fetch_path:
  assumes "cache_file w = None \<or>
           (cache_file w = Some (Parsed c) \<and> cached_last_update c = Some (Stamp s)
            \<and> 86400000000 \<le> now_load e - s * 1000000)"
  shows "load_cache_or_fetch e w = fetch_or_raise e w"
  using assms
  by (auto simp add: load_cache_or_fetch_def strptime_def days1)

lemma init_fetches:
  assumes "cache_file w = None \<or>
           (cache_file w = Some (Parsed c) \<and> cached_last_update c = Some (Stamp s)
            \<and> 86400000000 \<le> now_load e - s * 1000000)"
  shows "requests_sent w < requests_sent (snd (load_or_update_rates e w))"
proof -
  have "requests_sent (snd (load_or_update_rates e w)) = requests_sent (snd (fetch_or_raise e w))"
    by (simp add: load_or_update_rates_def init_fetch_path [OF assms] use_default_rates_def
             split: prod.splits sum.splits)
  then show ?thesis by (simp add: fetch_or_raise_snd fetch_counts)
qed

text \<open>When that call does not succeed, the default table and the current time are installed.\<close>

lemma init_default_when_fetch_fails:
  assumes "cache_file w = None \<or>
           (cache_file w = Some (Parsed c) \<and> cached_last_update c = Some (Stamp s)
            \<and> 86400000000 \<le> now_load e - s * 1000000)"
    and "fst (fetch_latest_rates e w) \<noteq> Inr True"
  shows "exchange_rates (snd (load_or_update_rates e w)) = default_rates"
    and "last_update (snd (load_or_update_rates e w)) = Some (strftime (now_default e))"
proof -
  have "fst (fetch_or_raise e w) \<noteq> Inr ()" using assms(2) by (simp add: fetch_or_raise_fst)
  then obtain err w' where "fetch_or_raise e w = (Inl err, w')"
    by (cases "fetch_or_raise e w") (auto elim: sumE)
  then have "load_or_update_rates e w = (Inr (), use_default_rates e w')"
    by (simp add: load_or_update_rates_def init_fetch_path [OF assms(1)])
  then show "exchange_rates (snd (load_or_update_rates e w)) = default_rates"
    and "last_update (snd (load_or_update_rates e w)) = Some (strftime (now_default e))"
    by (simp_all add: use_default_rates_def)
qed

lemma default_values:
  "float_lit 1 = Fin 1"
  "float_lit (93 / 100) = Fin (8376695306909123 / 9007199254740992)"
  "float_lit 15600 = Fin 15600"
  "float_lit (135 / 100) = Fin (3039929748475085 / 2251799813685248)"
  "float_lit (473 / 100) = Fin (1331376639841403 / 281474976710656)"
  "float_lit (15027 / 100) = Fin (5287155593788785 / 35184372088832)"
  unfolding float_lit_def
  by (rule rnd64_1 rnd64_093 rnd64_15600 rnd64_135 rnd64_473 rnd64_15027)+

lemma default_rates_values:
  "default_rates =
     [''USD'' \<mapsto> Fin 1, ''EUR'' \<mapsto> Fin (8376695306909123 / 9007199254740992),
      ''IDR'' \<mapsto> Fin 15600, ''SGD'' \<mapsto> Fin (3039929748475085 / 2251799813685248),
      ''MYR'' \<mapsto> Fin (1331376639841403 / 281474976710656),
      ''JPY'' \<mapsto> Fin (5287155593788785 / 35184372088832)]"
  unfolding default_rates_def default_values ..

text \<open>Every operation keeps the pivot invariant when the provider's tables have it.\<close>

lemma usd_ok_default: "usd_ok default_rates"
  by (simp add: usd_ok_def default_rates_values)

lemma cache_usd_ok_Parsed:
  "cache_usd_ok (Some (Parsed \<lparr>cached_last_update = t, cached_rates = Some rates\<rparr>)) = usd_ok rates"
  by (simp add: cache_usd_ok_def)

lemma cache_usd_okD:
  "cache_usd_ok (Some (Parsed c)) \<Longrightarrow> cached_rates c = Some rates \<Longrightarrow> usd_ok rates"
  by (simp add: cache_usd_ok_def)

lemma ok_save: "table_and_cache_ok w \<Longrightarrow> table_and_cache_ok (snd (save_to_cache w))"
  by (simp add: table_and_cache_ok_def save_to_cache_def cache_usd_ok_Parsed)

lemma ok_fetch:
  "table_and_cache_ok w \<Longrightarrow> env_usd_ok e \<Longrightarrow> table_and_cache_ok (snd (fetch_latest_rates e w))"
  by (auto simp add: table_and_cache_ok_def env_usd_ok_def fetch_latest_rates_def
        save_to_cache_def cache_usd_ok_Parsed Let_def split: reply.splits option.splits if_splits)

lemma ok_default: "table_and_cache_ok w \<Longrightarrow> table_and_cache_ok (use_default_rates e w)"
  by (simp add: table_and_cache_ok_def use_default_rates_def usd_ok_default)

lemma ok_load_cache:
  assumes "table_and_cache_ok w" and "env_usd_ok e"
  shows "table_and_cache_ok (snd (load_cache_or_fetch e w))"
proof -
  have f: "table_and_cache_ok (snd (fetch_or_raise e w))"
    using assms by (simp add: fetch_or_raise_snd ok_fetch)
  have a: "table_and_cache_ok (w\<lparr>exchange_rates := rates, last_update := t\<rparr>)"
    if "cache_file w = Some (Parsed c)" and "cached_rates c = Some rates" for c rates t
    using assms(1) that cache_usd_okD [of c rates] by (simp add: table_and_cache_ok_def)
  show ?thesis
    using assms(1) f a
    by (auto simp add: load_cache_or_fetch_def strptime_def
          split: option.splits cache_contents.splits stamp.splits)
qed

lemma ok_load:
  assumes "table_and_cache_ok w" and "env_usd_ok e"
  shows "table_and_cache_ok (snd (load_or_update_rates e w))"
proof (cases "load_cache_or_fetch e w")
  case (Pair r w')
  then have "table_and_cache_ok w'" using ok_load_cache [OF assms] by simp
  then show ?thesis
    using Pair by (cases r) (simp_all add: load_or_update_rates_def ok_default)
qed

lemma ok_exec:
  "table_and_cache_ok w \<Longrightarrow> env_usd_ok e \<Longrightarrow> table_and_cache_ok (exec unicode_upper e p w)"
  by (cases p) (simp_all add: ok_load ok_fetch ok_save refresh_snd convert_snd)

lemma run_ok:
  "table_and_cache_ok w \<Longrightarrow> \<forall>(e, p) \<in> set steps. env_usd_ok e \<Longrightarrow>
     table_and_cache_ok (run unicode_upper steps w)"
  by (induction steps arbitrary: w) (auto simp add: ok_exec)

section \<open>The claims\<close>

subsection \<open>Conversion\<close>

text \<open>
  C1. When the uppercased forms of both codes are keys of the rate table,
  \<^verbatim>\<open>convert(amount, from, to)\<close> is \<^verbatim>\<open>round(amount / rate[upper(from)] * rate[upper(to)], 2)\<close>:
  the same evaluation, step for step, and, when the source rate is not zero, the value
  of the quotient times the target rate, rounded to two decimal places half to even.
\<close>

theorem convert_formula:
  assumes "exchange_rates w (upper up f) = Some rf" and "exchange_rates w (upper up t) = Some rt"
  shows "fst (convert up w amount f t) =
           (case float_div amount rf of Inl err \<Rightarrow> Inl err
            | Inr q \<Rightarrow> py_round (ieee_mul q rt) 2)
       \<and> (rf \<noteq> Fin 0 \<longrightarrow>
            fst (convert up w amount f t) = Inr (round_half_even_2dp (ieee_mul (ieee_div amount rf) rt)))"
  using assms
  by (simp add: convert_def Let_def float_div_def py_round_2dp is_double_ieee_mul)

theorem convert_formula_witness:
  "exchange_rates sample_world (upper plain_upper ''usd'') = Some (Fin 1)
   \<and> exchange_rates sample_world (upper plain_upper ''idr'') = Some (Fin 15600)
   \<and> Fin 1 \<noteq> Fin 0
   \<and> fst (convert plain_upper sample_world (Fin 100) ''usd'' ''idr'') = Inr (Fin 1560000)"
proof -
  have h1: "exchange_rates sample_world (upper plain_upper ''usd'') = Some (Fin 1)"
    by (simp add: sample_world_def default_rates_values upper_eval)
  have h2: "exchange_rates sample_world (upper plain_upper ''idr'') = Some (Fin 15600)"
    by (simp add: sample_world_def default_rates_values upper_eval)
  have d: "round_decimal 1560000 2 = 1560000"
    using round_decimal_of_int [of 1560000 2] by simp
  have v: "round_half_even_2dp (ieee_mul (ieee_div (Fin 100) (Fin 1)) (Fin 15600)) = Fin 1560000"
    by (simp add: round_half_even_2dp_def rnd64_100 rnd64_1560000 d)
  show ?thesis
    using h1 h2 v convert_formula [OF h1 h2, of "Fin 100", THEN conjunct2] by simp
qed

text \<open>
  C2. \<^verbatim>\<open>convert\<close> fails with the unsupported-currency error exactly when the uppercased
  form of one of the two codes is not a key of the rate table; the whole outcome is the
  same for any other spelling of the codes that has the same uppercased forms, so it
  does not depend on the letter case of the inputs; and the call hands back the state
  as it was: rate table, timestamp and cache file are unchanged. This holds for every
  Unicode uppercase mapping \<open>up\<close>.
\<close>

theorem convert_unsupported_iff:
  "(fst (convert up w amount f t) = Inl UnsupportedCurrency \<longleftrightarrow>
      upper up f \<notin> dom (exchange_rates w) \<or> upper up t \<notin> dom (exchange_rates w))
   \<and> (upper up f' = upper up f \<and> upper up t' = upper up t \<longrightarrow>
        convert up w amount f' t' = convert up w amount f t)
   \<and> snd (convert up w amount f t) = w
   \<and> exchange_rates (exec up e (Convert amount f t) w) = exchange_rates w
   \<and> last_update (exec up e (Convert amount f t) w) = last_update w
   \<and> cache_file (exec up e (Convert amount f t) w) = cache_file w"
proof -
  have a: "fst (convert up w amount f t) = Inl UnsupportedCurrency \<longleftrightarrow>
             upper up f \<notin> dom (exchange_rates w) \<or> upper up t \<notin> dom (exchange_rates w)"
    by (auto simp add: convert_def Let_def float_div_def py_round_not_unsupported dom_def
          split: option.splits)
  have b: "convert up w amount f' t' = convert up w amount f t"
    if "upper up f' = upper up f" and "upper up t' = upper up t"
    using that by (simp add: convert_def Let_def)
  show ?thesis using a b by (simp add: convert_snd)
qed

theorem convert_unsupported_iff_witness:
  "upper plain_upper ''xyz'' \<notin> dom (exchange_rates sample_world)
   \<and> fst (convert plain_upper sample_world (Fin 100) ''usd'' ''xyz'') = Inl UnsupportedCurrency
   \<and> upper plain_upper ''USD'' = upper plain_upper ''usd''
   \<and> upper plain_upper ''XyZ'' = upper plain_upper ''xyz''
   \<and> convert plain_upper sample_world (Fin 100) ''USD'' ''XyZ''
       = (Inl UnsupportedCurrency, sample_world)"
proof -
  have h1: "upper plain_upper ''xyz'' \<notin> dom (exchange_rates sample_world)"
    by (simp add: sample_world_def default_rates_values upper_eval dom_def)
  have u: "upper plain_upper ''USD'' = ''USD''" "upper plain_upper ''usd'' = ''USD''"
    "upper plain_upper ''XyZ'' = ''XYZ''" "upper plain_upper ''xyz'' = ''XYZ''"
    by (simp_all add: upper_eval)
  have h2: "upper plain_upper ''USD'' = upper plain_upper ''usd''"
    and h3: "upper plain_upper ''XyZ'' = upper plain_upper ''xyz''"
    by (simp_all only: u)
  note t = convert_unsupported_iff
      [where up = plain_upper and w = sample_world and amount = "Fin 100" and f = "''usd''"
         and t = "''xyz''" and f' = "''USD''" and t' = "''XyZ''" and e = quiet_env]
  from t h1 have c1: "fst (convert plain_upper sample_world (Fin 100) ''usd'' ''xyz'')
                        = Inl UnsupportedCurrency"
    by blast
  from t h2 h3 have "convert plain_upper sample_world (Fin 100) ''USD'' ''XyZ''
                       = convert plain_upper sample_world (Fin 100) ''usd'' ''xyz''"
    by blast
  moreover from t have "snd (convert plain_upper sample_world (Fin 100) ''usd'' ''xyz'')
                          = sample_world"
    by blast
  ultimately have c2: "convert plain_upper sample_world (Fin 100) ''USD'' ''XyZ''
                         = (Inl UnsupportedCurrency, sample_world)"
    using c1 by (simp add: prod_eq_iff)
  show ?thesis by (intro conjI) fact+
qed

text \<open>
  C10. When every rate of the table is strictly positive, \<^verbatim>\<open>convert\<close> raises nothing
  but the unsupported-currency error, and it returns a value whenever the uppercased
  forms of both codes are keys: the division never meets a zero rate and the rounding
  never overflows.
\<close>

theorem convert_total_positive_rates:
  assumes "\<forall>c r. exchange_rates w c = Some r \<longrightarrow> positive r"
  shows "(\<forall>err. fst (convert up w amount f t) = Inl err \<longrightarrow> err = UnsupportedCurrency)
       \<and> (upper up f \<in> dom (exchange_rates w) \<and> upper up t \<in> dom (exchange_rates w) \<longrightarrow>
            (\<exists>v. fst (convert up w amount f t) = Inr v))"
proof -
  have nz: "rf \<noteq> Fin 0" if "exchange_rates w c = Some rf" for c rf
  proof -
    from assms that have "positive rf" by blast
    then show ?thesis by (auto simp add: positive_def)
  qed
  show ?thesis
    by (auto simp add: convert_def Let_def float_div_def py_round_2dp is_double_ieee_mul
             dest: nz split: option.splits)
qed

theorem convert_total_positive_rates_witness:
  "ran (exchange_rates sample_world) \<subseteq> Collect positive
   \<and> upper plain_upper ''eur'' \<in> dom (exchange_rates sample_world)
   \<and> upper plain_upper ''jpy'' \<in> dom (exchange_rates sample_world)
   \<and> (\<exists>v. fst (convert plain_upper sample_world (Fin 50) ''eur'' ''jpy'') = Inr v)"
proof -
  have h: "\<forall>c r. exchange_rates sample_world c = Some r \<longrightarrow> positive r"
    by (simp add: sample_world_def default_rates_values positive_def)
  have d: "upper plain_upper ''eur'' \<in> dom (exchange_rates sample_world)"
    "upper plain_upper ''jpy'' \<in> dom (exchange_rates sample_world)"
    by (simp_all add: sample_world_def default_rates_values upper_eval dom_def)
  have r: "ran (exchange_rates sample_world) \<subseteq> Collect positive"
    using h by (auto simp add: ran_def)
  from convert_total_positive_rates
         [OF h, where up = plain_upper and amount = "Fin 50" and f = "''eur''" and t = "''jpy''"] d
  have c: "\<exists>v. fst (convert plain_upper sample_world (Fin 50) ''eur'' ''jpy'') = Inr v"
    by blast
  show ?thesis by (intro conjI) fact+
qed

subsection \<open>Initialisation and the cache\<close>

text \<open>
  C3. When the cache file holds a timestamp less than 24 hours before the time of
  initialisation, \<^verbatim>\<open>load_or_update_rates\<close> sends no request to the provider, and the
  rate table it leaves is the one stored in the file, with the file's timestamp. For a
  timestamp that is not in the future, less than 24 hours old is the same as a
  whole-day count of 0.
\<close>

theorem init_fresh_cache_no_fetch:
  assumes "cache_file w = Some (Parsed c)" and "cached_last_update c = Some (Stamp s)"
    and "now_load e - s * 1000000 < 86400000000"
  shows "requests_sent (snd (load_or_update_rates e w)) = requests_sent w
       \<and> (\<forall>rates. cached_rates c = Some rates \<longrightarrow>
            exchange_rates (snd (load_or_update_rates e w)) = rates
            \<and> last_update (snd (load_or_update_rates e w)) = Some (Stamp s))
       \<and> (0 \<le> now_load e - s * 1000000 \<longrightarrow> timedelta_days (now_load e - s * 1000000) = 0)"
  using assms
  by (simp add: load_or_update_rates_def load_cache_or_fetch_def strptime_def days1 days2
        use_default_rates_def split: option.splits)

theorem init_fresh_cache_no_fetch_witness:
  "cache_file cached_world = Some (Parsed day_old_cache)
   \<and> cached_last_update day_old_cache = Some (Stamp 1699917200)
   \<and> now_load provider_up - 1699917200 * 1000000 = 23 * 3600 * 1000000
   \<and> cached_rates day_old_cache = Some [''USD'' \<mapsto> Fin 1, ''EUR'' \<mapsto> Fin (3 / 4)]
   \<and> requests_sent (snd (load_or_update_rates provider_up cached_world)) = 0
   \<and> exchange_rates (snd (load_or_update_rates provider_up cached_world))
       = [''USD'' \<mapsto> Fin 1, ''EUR'' \<mapsto> Fin (3 / 4)]
   \<and> timedelta_days (now_load provider_up - 1699917200 * 1000000) = 0"
proof -
  have h1: "cache_file cached_world = Some (Parsed day_old_cache)"
    by (simp add: cached_world_def)
  have h2: "cached_last_update day_old_cache = Some (Stamp 1699917200)"
    by (simp add: day_old_cache_def)
  have h3: "now_load provider_up - 1699917200 * 1000000 < 86400000000"
    by (simp add: provider_up_def)
  have h4: "cached_rates day_old_cache = Some [''USD'' \<mapsto> Fin 1, ''EUR'' \<mapsto> Fin (3 / 4)]"
    by (simp add: day_old_cache_def)
  have h5: "now_load provider_up - 1699917200 * 1000000 = 23 * 3600 * 1000000"
    by (simp add: provider_up_def)
  have h6: "requests_sent cached_world = 0"
    by (simp add: cached_world_def fresh_world_def)
  show ?thesis
    using h1 h2 h4 h5 h6 init_fresh_cache_no_fetch [OF h1 h2 h3] by simp
qed

text \<open>
  C4. With a cache file that cannot be parsed and a provider that would answer with a
  table, initialisation sends no request at all and installs the default table: the
  exception of the parse reaches the handler before the call of \<^verbatim>\<open>fetch_latest_rates\<close>.
\<close>

theorem init_unparsable_cache_skips_fetch:
  "cache_file corrupt_world = Some Unparsable
   \<and> fst (fetch_latest_rates provider_up corrupt_world) = Inr True
   \<and> requests_sent (snd (load_or_update_rates provider_up corrupt_world))
       = requests_sent corrupt_world
   \<and> exchange_rates (snd (load_or_update_rates provider_up corrupt_world)) = default_rates"
  by (simp add: init_unparsable use_default_rates_def corrupt_world_def fresh_world_def
        fetch_latest_rates_def save_to_cache_def provider_up_def Let_def)

text \<open>
  C8. From a state with a timestamp, on a writable cache file: \<^verbatim>\<open>save_to_cache\<close>
  writes the rate table and the timestamp to the cache file, and the construction of a
  new object by any process that finds this file, whatever it holds in memory, while
  the saved timestamp is less than 24 hours old, leaves exactly the saved rate table
  and timestamp, without a request to the provider.
\<close>

theorem persist_init_roundtrip:
  assumes "last_update w = Some (Stamp s)" and "cache_writable w"
    and "cache_file w' = cache_file (snd (save_to_cache w))"
    and "api_key e \<noteq> None" and "api_key e \<noteq> Some []"
    and "now_load e - s * 1000000 < 86400000000"
  shows "fst (save_to_cache w) = Inr ()
       \<and> cache_file (snd (save_to_cache w))
           = Some (Parsed \<lparr>cached_last_update = Some (Stamp s),
                            cached_rates = Some (exchange_rates w)\<rparr>)
       \<and> exchange_rates (snd (save_to_cache w)) = exchange_rates w
       \<and> fst (init e w') = Inr ()
       \<and> exchange_rates (snd (init e w')) = exchange_rates w
       \<and> last_update (snd (init e w')) = last_update w
       \<and> requests_sent (snd (init e w')) = requests_sent w'"
  using assms
  by (simp add: save_to_cache_def init_def load_or_update_rates_def load_cache_or_fetch_def
        strptime_def days1)

theorem persist_init_roundtrip_witness:
  "last_update priced_world = Some (Stamp 1699917200) \<and> cache_writable priced_world
   \<and> cache_file second_process = cache_file (snd (save_to_cache priced_world))
   \<and> api_key provider_up = Some ''key''
   \<and> now_load provider_up - 1699917200 * 1000000 = 23 * 3600 * 1000000
   \<and> exchange_rates second_process = [''USD'' \<mapsto> Fin 1, ''EUR'' \<mapsto> Fin (1 / 2)]
   \<and> reported_rates provider_up = Some [''USD'' \<mapsto> Fin 1, ''EUR'' \<mapsto> Fin (7 / 8)]
   \<and> exchange_rates (snd (init provider_up second_process))
       = [''USD'' \<mapsto> Fin 1, ''EUR'' \<mapsto> Fin (3 / 4)]
   \<and> last_update (snd (init provider_up second_process)) = Some (Stamp 1699917200)
   \<and> requests_sent (snd (init provider_up second_process)) = 5"
proof -
  have h1: "last_update priced_world = Some (Stamp 1699917200)"
    and h2: "cache_writable priced_world"
    and h3: "cache_file second_process = cache_file (snd (save_to_cache priced_world))"
    and h4: "api_key provider_up \<noteq> None" and h5: "api_key provider_up \<noteq> Some []"
    and h6: "now_load provider_up - 1699917200 * 1000000 < 86400000000"
    by (simp_all add: priced_world_def second_process_def fresh_world_def provider_up_def)
  have g1: "api_key provider_up = Some ''key''"
    and g2: "now_load provider_up - 1699917200 * 1000000 = 23 * 3600 * 1000000"
    and g3: "exchange_rates second_process = [''USD'' \<mapsto> Fin 1, ''EUR'' \<mapsto> Fin (1 / 2)]"
    and g4: "reported_rates provider_up = Some [''USD'' \<mapsto> Fin 1, ''EUR'' \<mapsto> Fin (7 / 8)]"
    by (simp_all add: second_process_def fresh_world_def provider_up_def reported_rates_def)
  have p: "exchange_rates priced_world = [''USD'' \<mapsto> Fin 1, ''EUR'' \<mapsto> Fin (3 / 4)]"
    and q: "requests_sent second_process = 5"
    by (simp_all add: priced_world_def second_process_def fresh_world_def)
  note t = persist_init_roundtrip [OF h1 h2 h3 h4 h5 h6]
  have c1: "exchange_rates (snd (init provider_up second_process))
              = [''USD'' \<mapsto> Fin 1, ''EUR'' \<mapsto> Fin (3 / 4)]"
    using t p by simp
  have c2: "last_update (snd (init provider_up second_process)) = Some (Stamp 1699917200)"
    using t h1 by simp
  have c3: "requests_sent (snd (init provider_up second_process)) = 5"
    using t q by simp
  show ?thesis by (intro conjI) fact+
qed

subsection \<open>Fetching\<close>

text \<open>
  C5. When every reply that arrives carries the fields the code reads, and the cache
  file can be written, \<^verbatim>\<open>fetch_latest_rates\<close> returns a boolean. It returns
  \<^verbatim>\<open>True\<close> exactly when the provider answers both requests and the second reply
  reports \<^verbatim>\<open>success\<close>; the rate table and the timestamp are then replaced by the
  reply's table and the time of the fetch, and both are written to the cache file.
  Whenever it returns \<^verbatim>\<open>False\<close>, also under the manual refresh, the rate table, the
  timestamp and the cache file are as before.
\<close>

theorem fetch_latest_rates_wellformed:
  assumes "replies_wellformed e" and "cache_writable w"
  shows "(\<exists>ok. fst (fetch_latest_rates e w) = Inr ok)
       \<and> (fst (fetch_latest_rates e w) = Inr True \<longleftrightarrow> reported_rates e \<noteq> None)
       \<and> (\<forall>rates. reported_rates e = Some rates \<longrightarrow>
            exchange_rates (snd (fetch_latest_rates e w)) = rates
            \<and> last_update (snd (fetch_latest_rates e w)) = Some (strftime (now_fetch e))
            \<and> cache_file (snd (fetch_latest_rates e w))
                = Some (Parsed \<lparr>cached_last_update = Some (strftime (now_fetch e)),
                                 cached_rates = Some rates\<rparr>))
       \<and> (fst (fetch_latest_rates e w) = Inr False \<longrightarrow>
            exchange_rates (snd (fetch_latest_rates e w)) = exchange_rates w
            \<and> last_update (snd (fetch_latest_rates e w)) = last_update w
            \<and> cache_file (snd (fetch_latest_rates e w)) = cache_file w
            \<and> snd (update_from_api e w) = snd (fetch_latest_rates e w))"
proof -
  have a: "\<exists>ok. fst (fetch_latest_rates e w) = Inr ok"
    using assms
    by (auto simp add: replies_wellformed_def fetch_latest_rates_def save_to_cache_def Let_def
          split: reply.splits option.splits if_splits)
  have b: "fst (fetch_latest_rates e w) = Inr True \<longleftrightarrow> reported_rates e \<noteq> None"
    using assms
    by (auto simp add: replies_wellformed_def reported_rates_def fetch_latest_rates_def
          save_to_cache_def Let_def split: reply.splits option.splits if_splits)
  have c: "exchange_rates (snd (fetch_latest_rates e w)) = rates
        \<and> last_update (snd (fetch_latest_rates e w)) = Some (strftime (now_fetch e))
        \<and> cache_file (snd (fetch_latest_rates e w))
            = Some (Parsed \<lparr>cached_last_update = Some (strftime (now_fetch e)),
                             cached_rates = Some rates\<rparr>)"
    if "reported_rates e = Some rates" for rates
    using that assms(2)
    by (auto simp add: reported_rates_def fetch_latest_rates_def save_to_cache_def Let_def
          split: reply.splits option.splits if_splits)
  show ?thesis using a b c refresh_snd [of e w] fetch_False_unchanged [of e w] by blast
qed

theorem fetch_latest_rates_wellformed_witness:
  "replies_wellformed provider_up \<and> cache_writable fresh_world
   \<and> reported_rates provider_up = Some [''USD'' \<mapsto> Fin 1, ''EUR'' \<mapsto> Fin (7 / 8)]
   \<and> fst (fetch_latest_rates provider_up fresh_world) = Inr True
   \<and> exchange_rates (snd (fetch_latest_rates provider_up fresh_world))
       = [''USD'' \<mapsto> Fin 1, ''EUR'' \<mapsto> Fin (7 / 8)]
   \<and> replies_wellformed quiet_env \<and> cache_writable sample_world
   \<and> fst (fetch_latest_rates quiet_env sample_world) = Inr False
   \<and> exchange_rates (snd (update_from_api quiet_env sample_world)) = default_rates"
proof -
  have h1: "replies_wellformed provider_up" and h2: "cache_writable fresh_world"
    and h3: "replies_wellformed quiet_env" and h4: "cache_writable sample_world"
    by (simp_all add: replies_wellformed_def provider_up_def quiet_env_def fresh_world_def
          sample_world_def)
  have r1: "reported_rates provider_up = Some [''USD'' \<mapsto> Fin 1, ''EUR'' \<mapsto> Fin (7 / 8)]"
    and r2: "reported_rates quiet_env = None"
    by (simp_all add: reported_rates_def provider_up_def quiet_env_def)
  have x: "exchange_rates sample_world = default_rates"
    by (simp add: sample_world_def)
  from fetch_latest_rates_wellformed [OF h3 h4] r2
  have f: "fst (fetch_latest_rates quiet_env sample_world) = Inr False"
    by (cases "fst (fetch_latest_rates quiet_env sample_world)") auto
  show ?thesis
    using h1 h2 h3 h4 r1 f x
      fetch_latest_rates_wellformed [OF h1 h2] fetch_latest_rates_wellformed [OF h3 h4]
    by simp
qed

text \<open>
  A first reply that arrives without the field \<^verbatim>\<open>supported_codes\<close>: the subscript
  raises \<^verbatim>\<open>KeyError\<close>, which the handler for request exceptions does not catch, so
  neither the fetch nor the manual refresh returns.
\<close>

theorem fetch_latest_rates_keyerror:
  "fst (fetch_latest_rates keyless_env fresh_world) = Inl KeyError
   \<and> fst (update_from_api keyless_env fresh_world) = Inl KeyError"
  by (simp add: update_from_api_def fetch_latest_rates_def keyless_env_def provider_up_def Let_def)

subsection \<open>Conversion through the pivot\<close>

text \<open>
  C6. For a code whose uppercased form is a key of the rate table,
  \<^verbatim>\<open>convert(amount, C, C)\<close> is \<^verbatim>\<open>round(amount / rate[C] * rate[C], 2)\<close>. It equals
  \<^verbatim>\<open>round(amount, 2)\<close> whenever the rate is not zero and dividing and multiplying back
  gives \<open>amount\<close> again in double precision, as it does when the rate is 1.0.
\<close>

theorem self_conversion:
  assumes "exchange_rates w (upper up c) = Some r"
  shows "fst (convert up w amount c c) =
           (case float_div amount r of Inl err \<Rightarrow> Inl err
            | Inr q \<Rightarrow> py_round (ieee_mul q r) 2)
       \<and> (r \<noteq> Fin 0 \<and> ieee_mul (ieee_div amount r) r = amount \<longrightarrow>
            fst (convert up w amount c c) = py_round amount 2)
       \<and> (r = Fin 1 \<and> is_double amount \<longrightarrow> fst (convert up w amount c c) = py_round amount 2)"
  using assms
  by (auto simp add: convert_def Let_def float_div_def ieee_div_one ieee_mul_one)

lemma plain_round_value:
  "py_round (Fin (31 / 8)) 2 = Inr (Fin (4368491638549381 / 1125899906842624))"
proof -
  have t: "round_half_even (31 / 8 * 10 ^ 2) = 388"
    using rhe_tie [of "31 / 8 * 10 ^ 2" 387] by simp
  have d: "round_decimal (31 / 8) 2 = 388 / 100"
    unfolding round_decimal_def t by simp
  show ?thesis by (rule py_round_cert [OF d rnd64_388]) simp
qed

theorem self_conversion_witness:
  "exchange_rates sample_world (upper plain_upper ''usd'') = Some (Fin 1)
   \<and> is_double (Fin (31 / 8))
   \<and> ieee_mul (ieee_div (Fin (31 / 8)) (Fin 1)) (Fin 1) = Fin (31 / 8)
   \<and> fst (convert plain_upper sample_world (Fin (31 / 8)) ''usd'' ''usd'')
       = Inr (Fin (4368491638549381 / 1125899906842624))"
proof -
  have h1: "exchange_rates sample_world (upper plain_upper ''usd'') = Some (Fin 1)"
    by (simp add: sample_world_def default_rates_values upper_eval)
  have h2: "is_double (Fin (31 / 8))"
    using rnd64_31_8 by (simp add: is_double_def)
  have h3: "ieee_mul (ieee_div (Fin (31 / 8)) (Fin 1)) (Fin 1) = Fin (31 / 8)"
    by (simp only: ieee_div_one [OF h2] ieee_mul_one [OF h2])
  from self_conversion [OF h1, of "Fin (31 / 8)"] h2
  have "fst (convert plain_upper sample_world (Fin (31 / 8)) ''usd'' ''usd'') = py_round (Fin (31 / 8)) 2"
    by blast
  then have c: "fst (convert plain_upper sample_world (Fin (31 / 8)) ''usd'' ''usd'')
                  = Inr (Fin (4368491638549381 / 1125899906842624))"
    by (simp only: plain_round_value)
  show ?thesis by (intro conjI) fact+
qed

text \<open>
  With the default table, 3.875 euros converted to euros is 3.87: the quotient by 0.93
  times 0.93 is the double just below 3.875, while 3.875 itself rounds to 3.88.
\<close>

theorem self_conversion_differs:
  "exchange_rates sample_world (upper plain_upper ''EUR'') = Some (float_lit (93 / 100))
   \<and> fst (convert plain_upper sample_world (Fin (31 / 8)) ''EUR'' ''EUR'')
       = Inr (Fin (4357232639480955 / 1125899906842624))
   \<and> py_round (Fin (31 / 8)) 2 = Inr (Fin (4368491638549381 / 1125899906842624))
   \<and> fst (convert plain_upper sample_world (Fin (31 / 8)) ''EUR'' ''EUR'') \<noteq> py_round (Fin (31 / 8)) 2"
proof -
  have k: "exchange_rates sample_world (upper plain_upper ''EUR'')
             = Some (Fin (8376695306909123 / 9007199254740992))"
    by (simp add: sample_world_def default_rates_values upper_eval)
  have r: "py_round (Fin (8725724278030335 / 2251799813685248)) 2
             = Inr (Fin (4357232639480955 / 1125899906842624))"
    by (rule py_round_cert [OF eur_product_decimal rnd64_387]) simp
  have c: "fst (convert plain_upper sample_world (Fin (31 / 8)) ''EUR'' ''EUR'')
             = Inr (Fin (4357232639480955 / 1125899906842624))"
    using k eur_quotient eur_product r by (simp add: convert_def Let_def float_div_def)
  show ?thesis
    using k c plain_round_value by (simp add: default_values)
qed

text \<open>
  C7. When the table holds the pivot \<open>USD\<close> at rate 1.0 and the uppercased form of
  \<open>X\<close> is a key, \<^verbatim>\<open>convert(amount, "USD", X)\<close> is \<^verbatim>\<open>round(amount * rate[X], 2)\<close> and
  \<^verbatim>\<open>convert(amount, X, "USD")\<close> is \<^verbatim>\<open>round(amount / rate[X], 2)\<close>.
\<close>

theorem pivot_conversion:
  assumes "exchange_rates w ''USD'' = Some (Fin 1)" and "exchange_rates w (upper up x) = Some r"
    and "is_double amount"
  shows "fst (convert up w amount ''USD'' x) = py_round (ieee_mul amount r) 2
       \<and> fst (convert up w amount x ''USD'') =
           (case float_div amount r of Inl err \<Rightarrow> Inl err | Inr q \<Rightarrow> py_round q 2)"
  using assms
  by (simp add: convert_def Let_def upper_USD float_div_def ieee_div_one ieee_mul_one
        is_double_ieee_div)

theorem pivot_conversion_witness:
  "exchange_rates sample_world ''USD'' = Some (Fin 1)
   \<and> exchange_rates sample_world (upper plain_upper ''idr'') = Some (Fin 15600)
   \<and> is_double (Fin 100)
   \<and> fst (convert plain_upper sample_world (Fin 100) ''USD'' ''idr'') = py_round (ieee_mul (Fin 100) (Fin 15600)) 2
   \<and> fst (convert plain_upper sample_world (Fin 100) ''idr'' ''USD'') = py_round (ieee_div (Fin 100) (Fin 15600)) 2"
proof -
  have h1: "exchange_rates sample_world ''USD'' = Some (Fin 1)"
    by (simp add: sample_world_def default_rates_values)
  have h2: "exchange_rates sample_world (upper plain_upper ''idr'') = Some (Fin 15600)"
    by (simp add: sample_world_def default_rates_values upper_eval)
  have h3: "is_double (Fin 100)"
    using rnd64_100 by (simp add: is_double_def)
  show ?thesis
    using h1 h2 h3 pivot_conversion [OF h1 h2 h3] by (simp add: float_div_def)
qed

text \<open>
  With a table that holds \<open>USD\<close> at rate 2, as a provider or a cache file can supply it,
  100 dollars convert to 37.5 euros, while 100 times the euro rate 0.75 is 75.
\<close>

theorem pivot_conversion_differs:
  "exchange_rates usd2_world (upper plain_upper ''USD'') = Some (Fin 2)
   \<and> exchange_rates usd2_world (upper plain_upper ''EUR'') = Some (Fin (3 / 4))
   \<and> fst (convert plain_upper usd2_world (Fin 100) ''USD'' ''EUR'') = Inr (Fin (75 / 2))
   \<and> py_round (ieee_mul (Fin 100) (Fin (3 / 4))) 2 = Inr (Fin 75)
   \<and> fst (convert plain_upper usd2_world (Fin 100) ''USD'' ''EUR'') \<noteq> py_round (ieee_mul (Fin 100) (Fin (3 / 4))) 2"
proof -
  have k: "exchange_rates usd2_world (upper plain_upper ''USD'') = Some (Fin 2)"
    "exchange_rates usd2_world (upper plain_upper ''EUR'') = Some (Fin (3 / 4))"
    by (simp_all add: usd2_world_def fresh_world_def upper_eval)
  have d1: "round_decimal (75 / 2) 2 = 75 / 2"
    using round_decimal_cert [where x = "75 / 2" and n = 2 and m = 3750] by simp
  have d2: "round_decimal 75 2 = 75"
    using round_decimal_of_int [of 75 2] by simp
  have q: "ieee_div (Fin 100) (Fin 2) = Fin 50"
    using rnd64_50 by simp
  have m: "ieee_mul (Fin 50) (Fin (3 / 4)) = Fin (75 / 2)"
    using rnd64_75_2 by simp
  have r: "py_round (Fin (75 / 2)) 2 = Inr (Fin (75 / 2))"
    by (rule py_round_cert [OF d1 rnd64_75_2]) simp
  have c: "fst (convert plain_upper usd2_world (Fin 100) ''USD'' ''EUR'') = Inr (Fin (75 / 2))"
    using k q m r by (simp add: convert_def Let_def float_div_def)
  have m2: "ieee_mul (Fin 100) (Fin (3 / 4)) = Fin 75"
    using rnd64_75 by simp
  have "py_round (Fin 75) 2 = Inr (Fin 75)"
    by (rule py_round_cert [OF d2 rnd64_75]) simp
  then have p: "py_round (ieee_mul (Fin 100) (Fin (3 / 4))) 2 = Inr (Fin 75)"
    by (simp only: m2)
  show ?thesis using k c p by simp
qed

subsection \<open>The pivot invariant\<close>

text \<open>
  C9. Provided the rate table and the cache file start with the pivot invariant (an
  empty table and no cache file do) and every table the provider delivers has it, every
  state reached by initialisations, fetches, refreshes, saves and conversions has it:
  if \<open>USD\<close> is a key of the rate table, its rate is 1.0.
\<close>

theorem usd_rate_preserved:
  assumes "usd_ok (exchange_rates w)" and "cache_usd_ok (cache_file w)"
    and "\<forall>(e, p) \<in> set steps. env_usd_ok e"
  shows "usd_ok (exchange_rates (run up steps w)) \<and> cache_usd_ok (cache_file (run up steps w))"
  using run_ok [of w steps up] assms by (simp add: table_and_cache_ok_def)

theorem usd_rate_preserved_witness:
  "usd_ok (exchange_rates fresh_world) \<and> cache_usd_ok (cache_file fresh_world)
   \<and> list_all (\<lambda>(e, p). env_usd_ok e) sample_steps
   \<and> usd_ok (exchange_rates (run plain_upper sample_steps fresh_world))"
proof -
  have h1: "usd_ok (exchange_rates fresh_world)"
    by (simp add: fresh_world_def usd_ok_def)
  have h2: "cache_usd_ok (cache_file fresh_world)"
    by (simp add: fresh_world_def cache_usd_ok_def)
  have h3: "\<forall>(e, p) \<in> set sample_steps. env_usd_ok e"
    by (simp add: sample_steps_def env_usd_ok_def provider_up_def quiet_env_def usd_ok_def)
  have h4: "list_all (\<lambda>(e, p). env_usd_ok e) sample_steps"
    using h3 by (simp add: list_all_iff)
  have c: "usd_ok (exchange_rates (run plain_upper sample_steps fresh_world))"
    using usd_rate_preserved [OF h1 h2 h3, where up = plain_upper] by simp
  show ?thesis by (intro conjI) fact+
qed

text \<open>
  The code stores the provider's table as it arrives: a reply that reports success with
  \<open>USD\<close> at rate 2 leaves that rate in the table of a newly initialised object.
\<close>

theorem usd_rate_from_provider:
  "exchange_rates fresh_world = Map.empty
   \<and> exchange_rates (run plain_upper [(usd2_env, Initialize)] fresh_world) ''USD'' = Some (Fin 2)
   \<and> \<not> usd_ok (exchange_rates (run plain_upper [(usd2_env, Initialize)] fresh_world))"
  by (simp add: fresh_world_def usd2_env_def provider_up_def load_or_update_rates_def
        load_cache_or_fetch_def fetch_or_raise_def fetch_latest_rates_def save_to_cache_def
        Let_def usd_ok_def)

end
